theory Spec2Isabelle
  imports Main "HOL-Library.Sublist"
begin

section \<open>Python values used by the two to-do applications\<close>

text \<open>
  A Python \<^verbatim>\<open>str\<close> is a sequence of Unicode code points. It is modelled as the list of
  its code points, so that \<^verbatim>\<open>str.strip()\<close> sees the same characters as the interpreter
  does. \<open>str\<close> turns an ASCII literal into such a list.
\<close>

type_synonym pystr = "nat list"

definition str :: "string \<Rightarrow> pystr" where
  "str cs = map of_char cs"

text \<open>
  \<^verbatim>\<open>str.isspace\<close> on one code point: the characters CPython treats as whitespace
  (tab to carriage return, the four separators 0x1C-0x1F, space, NEL, no-break space, and
  the Unicode space separators).
\<close>

definition isspace :: "nat \<Rightarrow> bool" where
  "isspace c =
     ((9 \<le> c \<and> c \<le> 13) \<or> (28 \<le> c \<and> c \<le> 32) \<or> c = 133 \<or> c = 160 \<or> c = 5760 \<or>
      (8192 \<le> c \<and> c \<le> 8202) \<or> c = 8232 \<or> c = 8233 \<or> c = 8239 \<or> c = 8287 \<or>
      c = 12288)"

text \<open>
  \<^verbatim>\<open>s.strip()\<close> with no argument: leading whitespace is dropped, then trailing
  whitespace.
\<close>

definition lstrip :: "pystr \<Rightarrow> pystr" where
  "lstrip s = dropWhile isspace s"

definition rstrip :: "pystr \<Rightarrow> pystr" where
  "rstrip s = rev (dropWhile isspace (rev s))"

definition strip :: "pystr \<Rightarrow> pystr" where
  "strip s = rstrip (lstrip s)"

text \<open>A string that is empty or consists of whitespace only.\<close>

definition whitespace_only :: "pystr \<Rightarrow> bool" where
  "whitespace_only s = list_all isspace s"

text \<open>The exceptions the handlers can raise.\<close>

datatype py_error = IndexError | OverflowError

text \<open>
  Python's list indexing, as \<^verbatim>\<open>xs[i]\<close> resolves an index: a negative index counts from
  the end, and an index that is still outside \<^verbatim>\<open>range(len(xs))\<close> raises \<^verbatim>\<open>IndexError\<close>.
  An integer too large for the machine's index type raises \<^verbatim>\<open>IndexError\<close> here as well.
\<close>

definition py_index :: "'a list \<Rightarrow> int \<Rightarrow> py_error + nat" where
  "py_index xs i =
     (let n = int (length xs); j = (if i < 0 then i + n else i)
      in if 0 \<le> j \<and> j < n then Inr (nat j) else Inl IndexError)"

text \<open>
  \<^verbatim>\<open>xs.pop(i)\<close> converts its argument to the C type \<^verbatim>\<open>Py_ssize_t\<close> first, which is 64
  bits wide on a 64-bit interpreter: an integer below \<^verbatim>\<open>-2**63\<close> or above \<^verbatim>\<open>2**63 - 1\<close>
  raises \<^verbatim>\<open>OverflowError\<close>. An integer that fits is resolved as above, and \<^verbatim>\<open>pop\<close> raises
  \<^verbatim>\<open>IndexError\<close> when it is out of range. A list never has more than \<^verbatim>\<open>2**63 - 1\<close>
  elements, so an integer that does not fit is never in range; \<open>py_pop_index\<close> tests the
  range first, which says the same for every list the interpreter can hold.
\<close>

definition fits_ssize :: "int \<Rightarrow> bool" where
  "fits_ssize i = (- (2 ^ 63) \<le> i \<and> i < 2 ^ 63)"

definition py_pop_index :: "'a list \<Rightarrow> int \<Rightarrow> py_error + nat" where
  "py_pop_index xs i =
     (case py_index xs i of
        Inr j \<Rightarrow> Inr j
      | Inl e \<Rightarrow> if fits_ssize i then Inl IndexError else Inl OverflowError)"


section \<open>The index-based application (TODO_App/TODO_App/TODO_App.py)\<close>

text \<open>
  A to-do item is the dictionary \<^verbatim>\<open>{"text": ..., "completed": ...}\<close> that \<^verbatim>\<open>add_todo\<close>
  builds; no other code creates one, so both keys are always present. Every item is a
  fresh dictionary, so no two positions of the list share an object and an update in place
  is an update of one position.
\<close>

record todo =
  todo_text :: pystr
  todo_completed :: bool

record todo_state =
  todos :: "todo list"
  new_todo :: pystr
  filter_status :: pystr

text \<open>The class defaults: no items, empty input, filter \<^verbatim>\<open>"all"\<close>.\<close>

definition todo_init :: todo_state where
  "todo_init = \<lparr>todos = [], new_todo = [], filter_status = str ''all''\<rparr>"

text \<open>
  \<^verbatim>\<open>set_new_todo\<close> is the setter the framework generates for the state variable
  \<^verbatim>\<open>new_todo\<close>; the input field's \<^verbatim>\<open>on_change\<close> is bound to it.
\<close>

definition set_new_todo :: "todo_state \<Rightarrow> pystr \<Rightarrow> todo_state" where
  "set_new_todo s v = s\<lparr>new_todo := v\<rparr>"

text \<open>
  \<^verbatim>\<open>add_todo\<close>: the guard strips the input, the stored text is the input as typed.
\<close>

definition add_todo :: "todo_state \<Rightarrow> todo_state" where
  "add_todo s =
     (if strip (new_todo s) \<noteq> []
      then s\<lparr>todos := todos s @ [\<lparr>todo_text = new_todo s, todo_completed = False\<rparr>],
             new_todo := []\<rparr>
      else s)"

text \<open>
  \<^verbatim>\<open>toggle_todo\<close>: the right-hand side reads \<^verbatim>\<open>self.todos[index]\<close> first, so an index
  out of range raises before anything is written.
\<close>

definition toggle_todo :: "todo_state \<Rightarrow> int \<Rightarrow> py_error + todo_state" where
  "toggle_todo s index =
     (case py_index (todos s) index of
        Inl e \<Rightarrow> Inl e
      | Inr j \<Rightarrow>
          Inr (s\<lparr>todos := (todos s)
                 [j := (todos s ! j)\<lparr>todo_completed := \<not> todo_completed (todos s ! j)\<rparr>]\<rparr>))"

text \<open>\<^verbatim>\<open>delete_todo\<close>: \<^verbatim>\<open>self.todos.pop(index)\<close>.\<close>

definition delete_todo :: "todo_state \<Rightarrow> int \<Rightarrow> py_error + todo_state" where
  "delete_todo s index =
     (case py_pop_index (todos s) index of
        Inl e \<Rightarrow> Inl e
      | Inr j \<Rightarrow> Inr (s\<lparr>todos := take j (todos s) @ drop (Suc j) (todos s)\<rparr>))"

definition clear_completed :: "todo_state \<Rightarrow> todo_state" where
  "clear_completed s = s\<lparr>todos := filter (\<lambda>t. \<not> todo_completed t) (todos s)\<rparr>"

text \<open>The computed variable \<^verbatim>\<open>filtered_todos\<close>: it reads the state and returns a list.\<close>

definition filtered_todos :: "todo_state \<Rightarrow> todo list" where
  "filtered_todos s =
     (if filter_status s = str ''active'' then filter (\<lambda>t. \<not> todo_completed t) (todos s)
      else if filter_status s = str ''completed'' then filter (\<lambda>t. todo_completed t) (todos s)
      else todos s)"

definition set_filter :: "todo_state \<Rightarrow> pystr \<Rightarrow> todo_state" where
  "set_filter s status = s\<lparr>filter_status := status\<rparr>"

text \<open>
  The events the page of this application can send, and what handling one does to the
  state. A handler that raises has not written to the state; the session goes on with the
  state it had.
\<close>

datatype todo_event =
    SetNewTodo pystr
  | AddTodo
  | ToggleTodo int
  | DeleteTodo int
  | ClearCompleted
  | SetFilter pystr

fun todo_handle :: "todo_state \<Rightarrow> todo_event \<Rightarrow> py_error + todo_state" where
  "todo_handle s (SetNewTodo v) = Inr (set_new_todo s v)"
| "todo_handle s AddTodo = Inr (add_todo s)"
| "todo_handle s (ToggleTodo i) = toggle_todo s i"
| "todo_handle s (DeleteTodo i) = delete_todo s i"
| "todo_handle s ClearCompleted = Inr (clear_completed s)"
| "todo_handle s (SetFilter f) = Inr (set_filter s f)"

fun todo_run :: "todo_state \<Rightarrow> todo_event list \<Rightarrow> todo_state" where
  "todo_run s [] = s"
| "todo_run s (ev # evs) =
     (case todo_handle s ev of Inl e \<Rightarrow> todo_run s evs | Inr s' \<Rightarrow> todo_run s' evs)"


section \<open>The application with description and timestamp as identity (TODO_App/todo_app.py)\<close>

text \<open>
  A task is the dictionary \<^verbatim>\<open>add_task\<close> builds, with the keys \<^verbatim>\<open>description\<close>,
  \<^verbatim>\<open>completed\<close> and \<^verbatim>\<open>created_at\<close>. The handlers \<^verbatim>\<open>toggle_complete\<close> and
  \<^verbatim>\<open>delete_task\<close> receive such a dictionary from the page and read its description and
  timestamp only.
\<close>

record task =
  description :: pystr
  completed :: bool
  created_at :: pystr

record task_state =
  tasks :: "task list"
  new_task_description :: pystr

definition task_init :: task_state where
  "task_init = \<lparr>tasks = [], new_task_description = []\<rparr>"

definition set_new_task_description :: "task_state \<Rightarrow> pystr \<Rightarrow> task_state" where
  "set_new_task_description s v = s\<lparr>new_task_description := v\<rparr>"

text \<open>
  \<^verbatim>\<open>add_task\<close>. The clock is an input: \<open>now\<close> is the string
  \<^verbatim>\<open>datetime.datetime.now().strftime("%Y-%m-%d %H:%M")\<close> at the time of the call. The
  message printed for an empty input goes to the console and is not part of the state.
\<close>

definition add_task :: "pystr \<Rightarrow> task_state \<Rightarrow> task_state" where
  "add_task now s =
     (if strip (new_task_description s) = [] then s
      else s\<lparr>tasks := tasks s @
                 [\<lparr>description = strip (new_task_description s), completed = False,
                   created_at = now\<rparr>],
             new_task_description := []\<rparr>)"

text \<open>The test both handlers apply to each task of the list.\<close>

definition same_key :: "task \<Rightarrow> task \<Rightarrow> bool" where
  "same_key t k = (description t = description k \<and> created_at t = created_at k)"

text \<open>The loop of \<^verbatim>\<open>toggle_complete\<close>: the first task with the key is flipped, then \<^verbatim>\<open>break\<close>.\<close>

fun toggle_first :: "task list \<Rightarrow> task \<Rightarrow> task list" where
  "toggle_first [] k = []"
| "toggle_first (t # ts) k =
     (if same_key t k then t\<lparr>completed := \<not> completed t\<rparr> # ts
      else t # toggle_first ts k)"

definition toggle_complete :: "task_state \<Rightarrow> task \<Rightarrow> task_state" where
  "toggle_complete s task_to_toggle = s\<lparr>tasks := toggle_first (tasks s) task_to_toggle\<rparr>"

definition delete_task :: "task_state \<Rightarrow> task \<Rightarrow> task_state" where
  "delete_task s task_to_delete =
     s\<lparr>tasks := filter (\<lambda>t. \<not> same_key t task_to_delete) (tasks s)\<rparr>"

definition completed_tasks_count :: "task_state \<Rightarrow> nat" where
  "completed_tasks_count s = length (filter completed (tasks s))"

definition total_tasks_count :: "task_state \<Rightarrow> nat" where
  "total_tasks_count s = length (tasks s)"

datatype task_event =
    SetNewTaskDescription pystr
  | AddTask pystr
  | ToggleComplete task
  | DeleteTask task

fun task_handle :: "task_state \<Rightarrow> task_event \<Rightarrow> task_state" where
  "task_handle s (SetNewTaskDescription v) = set_new_task_description s v"
| "task_handle s (AddTask now) = add_task now s"
| "task_handle s (ToggleComplete k) = toggle_complete s k"
| "task_handle s (DeleteTask k) = delete_task s k"

fun task_run :: "task_state \<Rightarrow> task_event list \<Rightarrow> task_state" where
  "task_run s [] = s"
| "task_run s (ev # evs) = task_run (task_handle s ev) evs"

section \<open>Facts about the string functions\<close>

lemma str_simps: "str [] = []" "str (c # cs) = of_char c # str cs"
  by (simp_all add: str_def)

text \<open>Stripping leaves nothing exactly when the string is empty or all whitespace.\<close>

lemma strip_eq_Nil_iff: "strip s = [] \<longleftrightarrow> whitespace_only s"
proof
  assume "strip s = []"
  then have all: "\<forall>x \<in> set (dropWhile isspace s). isspace x"
    by (simp add: strip_def rstrip_def lstrip_def)
  have "dropWhile isspace s = []"
  proof (rule ccontr)
    assume ne: "dropWhile isspace s \<noteq> []"
    then have "\<not> isspace (hd (dropWhile isspace s))" by (rule hd_dropWhile)
    moreover from ne have "hd (dropWhile isspace s) \<in> set (dropWhile isspace s)" by simp
    ultimately show False using all by blast
  qed
  then show "whitespace_only s"
    by (simp add: whitespace_only_def list_all_iff)
next
  assume "whitespace_only s"
  then have "dropWhile isspace s = []"
    by (simp add: whitespace_only_def list_all_iff)
  then show "strip s = []"
    by (simp only: strip_def rstrip_def lstrip_def rev.simps dropWhile.simps)
qed

text \<open>What is left after stripping the right end still starts with a non-space.\<close>

lemma lstrip_rstrip_lstrip: "lstrip (rstrip (lstrip s)) = rstrip (lstrip s)"
proof (cases "rstrip (lstrip s)")
  case Nil
  then show ?thesis by (simp add: lstrip_def)
next
  case (Cons c cs)
  let ?t = "lstrip s"
  have "rev (rev ?t) = rev (takeWhile isspace (rev ?t) @ dropWhile isspace (rev ?t))"
    by (simp only: takeWhile_dropWhile_id)
  then have split: "?t = rstrip ?t @ rev (takeWhile isspace (rev ?t))"
    by (simp only: rev_rev_ident rev_append rstrip_def)
  with Cons have t: "?t = c # cs @ rev (takeWhile isspace (rev ?t))" by simp
  then have ne: "dropWhile isspace s \<noteq> []" and hd: "hd (dropWhile isspace s) = c"
    unfolding lstrip_def by (metis list.distinct(1), metis list.sel(1))
  from hd_dropWhile [OF ne] hd have "\<not> isspace c" by simp
  with Cons show ?thesis by (simp add: lstrip_def)
qed

lemma rstrip_idem: "rstrip (rstrip s) = rstrip s"
  by (simp add: rstrip_def)

lemma strip_idem: "strip (strip s) = strip s"
  by (simp add: strip_def lstrip_rstrip_lstrip rstrip_idem)

lemma strip_not_blank: "strip s \<noteq> [] \<Longrightarrow> \<not> whitespace_only (strip s)"
  using strip_eq_Nil_iff [of "strip s"] by (simp add: strip_idem)

lemma not_blank_input: "strip s \<noteq> [] \<Longrightarrow> \<not> whitespace_only s"
  by (simp add: strip_eq_Nil_iff)

section \<open>Facts about list indexing\<close>

lemma py_index_in_range:
  "0 \<le> i \<Longrightarrow> i < int (length xs) \<Longrightarrow> py_index xs i = Inr (nat i)"
  by (simp add: py_index_def Let_def)

lemma py_index_out_of_range:
  "i \<ge> int (length xs) \<or> i < - int (length xs) \<Longrightarrow> py_index xs i = Inl IndexError"
  by (auto simp add: py_index_def Let_def)

lemma py_pop_index_in_range:
  "0 \<le> i \<Longrightarrow> i < int (length xs) \<Longrightarrow> py_pop_index xs i = Inr (nat i)"
  by (simp add: py_pop_index_def py_index_in_range)

lemma py_pop_index_out_of_range:
  "i \<ge> int (length xs) \<or> i < - int (length xs) \<Longrightarrow>
   py_pop_index xs i = Inl (if fits_ssize i then IndexError else OverflowError)"
  by (simp add: py_pop_index_def py_index_out_of_range)

lemma py_index_negative:
  "- int (length xs) \<le> i \<Longrightarrow> i < 0 \<Longrightarrow> py_index xs i = Inr (nat (i + int (length xs)))"
  by (simp add: py_index_def Let_def)


section \<open>The index-based application: clearing and filtering\<close>

text \<open>
  Claim C5. In every state, \<^verbatim>\<open>clear_completed\<close> keeps exactly the items that are not
  completed, in their order (the result is the list filtered by "not completed", a
  subsequence of the old list), leaves the input field and the filter alone, and a second
  call in a row changes nothing more.
\<close>

theorem clear_completed_removes_completed:
  "todos (clear_completed s) = filter (\<lambda>t. \<not> todo_completed t) (todos s)
   \<and> subseq (todos (clear_completed s)) (todos s)
   \<and> new_todo (clear_completed s) = new_todo s
   \<and> filter_status (clear_completed s) = filter_status s
   \<and> clear_completed (clear_completed s) = clear_completed s"
  by (simp add: clear_completed_def)

text \<open>
  Claim C4. In every state, \<^verbatim>\<open>filtered_todos\<close> is the list of the items that are not
  completed when the filter is \<^verbatim>\<open>"active"\<close>, the list of the completed items when it is
  \<^verbatim>\<open>"completed"\<close>, and the whole list when it is \<^verbatim>\<open>"all"\<close>; it is always a subsequence
  of the items, so their order is kept. It is a function from the state to a list: it
  returns no state, so it changes none.
\<close>

theorem filtered_todos_by_filter:
  "(filter_status s = str ''active'' \<longrightarrow>
      filtered_todos s = filter (\<lambda>t. \<not> todo_completed t) (todos s))
   \<and> (filter_status s = str ''completed'' \<longrightarrow>
      filtered_todos s = filter (\<lambda>t. todo_completed t) (todos s))
   \<and> (filter_status s = str ''all'' \<longrightarrow> filtered_todos s = todos s)
   \<and> subseq (filtered_todos s) (todos s)"
  by (simp add: filtered_todos_def str_simps)

text \<open>
  The three filters on the list "Buy milk" (completed), "Walk dog" (not completed).
\<close>

theorem filtered_todos_by_filter_witness:
  "filtered_todos \<lparr>todos = [\<lparr>todo_text = str ''Buy milk'', todo_completed = True\<rparr>,
                             \<lparr>todo_text = str ''Walk dog'', todo_completed = False\<rparr>],
                    new_todo = [], filter_status = str ''active''\<rparr>
     = [\<lparr>todo_text = str ''Walk dog'', todo_completed = False\<rparr>]
   \<and> filtered_todos \<lparr>todos = [\<lparr>todo_text = str ''Buy milk'', todo_completed = True\<rparr>,
                             \<lparr>todo_text = str ''Walk dog'', todo_completed = False\<rparr>],
                    new_todo = [], filter_status = str ''completed''\<rparr>
     = [\<lparr>todo_text = str ''Buy milk'', todo_completed = True\<rparr>]
   \<and> filtered_todos \<lparr>todos = [\<lparr>todo_text = str ''Buy milk'', todo_completed = True\<rparr>,
                             \<lparr>todo_text = str ''Walk dog'', todo_completed = False\<rparr>],
                    new_todo = [], filter_status = str ''all''\<rparr>
     = [\<lparr>todo_text = str ''Buy milk'', todo_completed = True\<rparr>,
        \<lparr>todo_text = str ''Walk dog'', todo_completed = False\<rparr>]"
  using
    filtered_todos_by_filter [of "\<lparr>todos = [\<lparr>todo_text = str ''Buy milk'', todo_completed = True\<rparr>,
                             \<lparr>todo_text = str ''Walk dog'', todo_completed = False\<rparr>],
                    new_todo = [], filter_status = str ''active''\<rparr>"]
    filtered_todos_by_filter [of "\<lparr>todos = [\<lparr>todo_text = str ''Buy milk'', todo_completed = True\<rparr>,
                             \<lparr>todo_text = str ''Walk dog'', todo_completed = False\<rparr>],
                    new_todo = [], filter_status = str ''completed''\<rparr>"]
    filtered_todos_by_filter [of "\<lparr>todos = [\<lparr>todo_text = str ''Buy milk'', todo_completed = True\<rparr>,
                             \<lparr>todo_text = str ''Walk dog'', todo_completed = False\<rparr>],
                    new_todo = [], filter_status = str ''all''\<rparr>"]
  by simp

section \<open>The index-based application: deleting and toggling by index\<close>

text \<open>
  Claim C6. For every index \<open>i\<close> with \<open>0 \<le> i < len(todos)\<close>, \<^verbatim>\<open>delete_todo(i)\<close> returns
  normally; the list is one shorter; it is the old list without position \<open>i\<close>: the items
  before \<open>i\<close> stay where they were, each item after \<open>i\<close> moves down by one, and the new
  list is a subsequence of the old one. The input field and the filter are unchanged.
\<close>

theorem delete_todo_in_range:
  assumes "0 \<le> i" and "i < int (length (todos s))"
  shows "\<exists>s'. delete_todo s i = Inr s'
     \<and> length (todos s') + 1 = length (todos s)
     \<and> todos s' = take (nat i) (todos s) @ drop (Suc (nat i)) (todos s)
     \<and> (\<forall>j. j < nat i \<longrightarrow> todos s' ! j = todos s ! j)
     \<and> (\<forall>j. nat i \<le> j \<and> j < length (todos s') \<longrightarrow> todos s' ! j = todos s ! Suc j)
     \<and> subseq (todos s') (todos s)
     \<and> new_todo s' = new_todo s \<and> filter_status s' = filter_status s"
proof -
  let ?k = "nat i"
  let ?xs = "todos s"
  let ?s' = "s\<lparr>todos := take ?k ?xs @ drop (Suc ?k) ?xs\<rparr>"
  from assms have k: "?k < length ?xs" by simp
  have run: "delete_todo s i = Inr ?s'"
    using assms by (simp add: delete_todo_def py_pop_index_in_range)
  have len: "length (todos ?s') + 1 = length ?xs"
    using k by simp
  have before: "\<forall>j. j < ?k \<longrightarrow> todos ?s' ! j = ?xs ! j"
    using k by (simp add: nth_append)
  have after: "\<forall>j. ?k \<le> j \<and> j < length (todos ?s') \<longrightarrow> todos ?s' ! j = ?xs ! Suc j"
    using k by (auto simp add: nth_append min_def)
  have split: "?xs = take ?k ?xs @ ?xs ! ?k # drop (Suc ?k) ?xs"
    using k by (rule id_take_nth_drop)
  have "subseq (take ?k ?xs @ drop (Suc ?k) ?xs) (take ?k ?xs @ ?xs ! ?k # drop (Suc ?k) ?xs)"
    by (simp only: subseq_append') (blast intro: list_emb_Cons subseq_order.order_refl)
  with split have sub: "subseq (todos ?s') ?xs" by simp
  from run len before after sub show ?thesis by simp
qed

text \<open>Deleting index 1 of the three items a, b, c leaves a, c.\<close>

theorem delete_todo_in_range_witness:
  "(0::int) \<le> 1
   \<and> (1::int) < int (length (todos \<lparr>todos = [\<lparr>todo_text = str ''a'', todo_completed = False\<rparr>,
                                              \<lparr>todo_text = str ''b'', todo_completed = True\<rparr>,
                                              \<lparr>todo_text = str ''c'', todo_completed = False\<rparr>],
                                     new_todo = str ''x'', filter_status = str ''all''\<rparr>))
   \<and> delete_todo \<lparr>todos = [\<lparr>todo_text = str ''a'', todo_completed = False\<rparr>,
                          \<lparr>todo_text = str ''b'', todo_completed = True\<rparr>,
                          \<lparr>todo_text = str ''c'', todo_completed = False\<rparr>],
                 new_todo = str ''x'', filter_status = str ''all''\<rparr> 1
     = Inr \<lparr>todos = [\<lparr>todo_text = str ''a'', todo_completed = False\<rparr>,
                     \<lparr>todo_text = str ''c'', todo_completed = False\<rparr>],
            new_todo = str ''x'', filter_status = str ''all''\<rparr>"
  using delete_todo_in_range [of 1 "\<lparr>todos = [\<lparr>todo_text = str ''a'', todo_completed = False\<rparr>,
                          \<lparr>todo_text = str ''b'', todo_completed = True\<rparr>,
                          \<lparr>todo_text = str ''c'', todo_completed = False\<rparr>],
                 new_todo = str ''x'', filter_status = str ''all''\<rparr>"]
  by (simp add: delete_todo_def py_pop_index_def py_index_def)

text \<open>
  Claim C10. For every index \<open>i\<close> with \<open>0 \<le> i < len(todos)\<close>, \<^verbatim>\<open>toggle_todo(i)\<close> returns
  normally and changes only the completed flag at position \<open>i\<close>, which it negates: the
  length is the same, the text at \<open>i\<close> and the texts of all items are the same, every other
  position holds the item it held, and the input field and the filter are unchanged.
\<close>

theorem toggle_todo_in_range:
  assumes "0 \<le> i" and "i < int (length (todos s))"
  shows "\<exists>s'. toggle_todo s i = Inr s'
     \<and> length (todos s') = length (todos s)
     \<and> todo_completed (todos s' ! nat i) = (\<not> todo_completed (todos s ! nat i))
     \<and> todo_text (todos s' ! nat i) = todo_text (todos s ! nat i)
     \<and> map todo_text (todos s') = map todo_text (todos s)
     \<and> (\<forall>j. j \<noteq> nat i \<longrightarrow> todos s' ! j = todos s ! j)
     \<and> new_todo s' = new_todo s \<and> filter_status s' = filter_status s"
proof -
  let ?k = "nat i"
  let ?xs = "todos s"
  let ?s' = "s\<lparr>todos := ?xs[?k := (?xs ! ?k)\<lparr>todo_completed := \<not> todo_completed (?xs ! ?k)\<rparr>]\<rparr>"
  from assms have k: "?k < length ?xs" by simp
  have run: "toggle_todo s i = Inr ?s'"
    using assms by (simp add: toggle_todo_def py_index_in_range)
  have texts: "map todo_text (todos ?s') = map todo_text ?xs"
    using k by (simp add: map_update list_update_same_conv)
  from run k texts show ?thesis by simp
qed

text \<open>Toggling index 1 of the three items a, b (completed), c makes b not completed.\<close>

theorem toggle_todo_in_range_witness:
  "(0::int) \<le> 1
   \<and> (1::int) < int (length (todos \<lparr>todos = [\<lparr>todo_text = str ''a'', todo_completed = False\<rparr>,
                                              \<lparr>todo_text = str ''b'', todo_completed = True\<rparr>,
                                              \<lparr>todo_text = str ''c'', todo_completed = False\<rparr>],
                                     new_todo = str ''x'', filter_status = str ''active''\<rparr>))
   \<and> toggle_todo \<lparr>todos = [\<lparr>todo_text = str ''a'', todo_completed = False\<rparr>,
                          \<lparr>todo_text = str ''b'', todo_completed = True\<rparr>,
                          \<lparr>todo_text = str ''c'', todo_completed = False\<rparr>],
                 new_todo = str ''x'', filter_status = str ''active''\<rparr> 1
     = Inr \<lparr>todos = [\<lparr>todo_text = str ''a'', todo_completed = False\<rparr>,
                     \<lparr>todo_text = str ''b'', todo_completed = False\<rparr>,
                     \<lparr>todo_text = str ''c'', todo_completed = False\<rparr>],
            new_todo = str ''x'', filter_status = str ''active''\<rparr>"
  using toggle_todo_in_range [of 1 "\<lparr>todos = [\<lparr>todo_text = str ''a'', todo_completed = False\<rparr>,
                          \<lparr>todo_text = str ''b'', todo_completed = True\<rparr>,
                          \<lparr>todo_text = str ''c'', todo_completed = False\<rparr>],
                 new_todo = str ''x'', filter_status = str ''active''\<rparr>"]
  by (simp add: toggle_todo_def py_index_def)

section \<open>The index-based application: the filter is any string\<close>

text \<open>
  Claim C9. \<^verbatim>\<open>set_filter\<close> returns normally for every string and stores it as the filter
  without touching the items; and whenever the filter is neither \<^verbatim>\<open>"active"\<close> nor
  \<^verbatim>\<open>"completed"\<close>, whatever string it is, \<^verbatim>\<open>filtered_todos\<close> is the whole list, as it
  is for \<^verbatim>\<open>"all"\<close>.
\<close>

theorem set_filter_accepts_any_string:
  "todo_handle s (SetFilter f) = Inr (set_filter s f)
   \<and> filter_status (set_filter s f) = f
   \<and> todos (set_filter s f) = todos s
   \<and> (f \<noteq> str ''active'' \<and> f \<noteq> str ''completed'' \<longrightarrow>
        filtered_todos (set_filter s f) = todos s)
   \<and> (filter_status s \<noteq> str ''active'' \<and> filter_status s \<noteq> str ''completed'' \<longrightarrow>
        filtered_todos s = todos s)"
  by (simp add: set_filter_def filtered_todos_def)

text \<open>After \<^verbatim>\<open>set_filter("bogus")\<close> the view shows both items.\<close>

theorem set_filter_accepts_any_string_witness:
  "todo_handle \<lparr>todos = [\<lparr>todo_text = str ''a'', todo_completed = True\<rparr>,
                          \<lparr>todo_text = str ''b'', todo_completed = False\<rparr>],
                 new_todo = [], filter_status = str ''active''\<rparr> (SetFilter (str ''bogus''))
     = Inr \<lparr>todos = [\<lparr>todo_text = str ''a'', todo_completed = True\<rparr>,
                     \<lparr>todo_text = str ''b'', todo_completed = False\<rparr>],
            new_todo = [], filter_status = str ''bogus''\<rparr>
   \<and> filtered_todos \<lparr>todos = [\<lparr>todo_text = str ''a'', todo_completed = True\<rparr>,
                     \<lparr>todo_text = str ''b'', todo_completed = False\<rparr>],
            new_todo = [], filter_status = str ''bogus''\<rparr>
     = [\<lparr>todo_text = str ''a'', todo_completed = True\<rparr>,
        \<lparr>todo_text = str ''b'', todo_completed = False\<rparr>]"
  using set_filter_accepts_any_string
    [of "\<lparr>todos = [\<lparr>todo_text = str ''a'', todo_completed = True\<rparr>,
                          \<lparr>todo_text = str ''b'', todo_completed = False\<rparr>],
                 new_todo = [], filter_status = str ''active''\<rparr>" "str ''bogus''"]
  by (simp add: set_filter_def str_simps)

text \<open>
  Claim C3 says that \<^verbatim>\<open>set_filter\<close> on an unrecognized string fails and leaves the filter
  at its prior value. On the initial state, \<^verbatim>\<open>set_filter("bogus")\<close> returns normally and
  the filter, which was \<^verbatim>\<open>"all"\<close>, is \<^verbatim>\<open>"bogus"\<close> afterwards.
\<close>

theorem set_filter_bogus_counterexample:
  "todo_handle todo_init (SetFilter (str ''bogus''))
     = Inr (todo_init\<lparr>filter_status := str ''bogus''\<rparr>)
   \<and> filter_status (set_filter todo_init (str ''bogus'')) \<noteq> filter_status todo_init
   \<and> str ''bogus'' \<noteq> str ''all'' \<and> str ''bogus'' \<noteq> str ''active''
   \<and> str ''bogus'' \<noteq> str ''completed''"
  by (simp add: set_filter_def todo_init_def str_simps)

text \<open>
  Claim C3, as the code has it. For every string that is none of \<^verbatim>\<open>"all"\<close>,
  \<^verbatim>\<open>"active"\<close>, \<^verbatim>\<open>"completed"\<close>, \<^verbatim>\<open>set_filter\<close> raises nothing and stores the string as
  the filter, replacing the prior value; the items and the input field are unchanged, and
  \<^verbatim>\<open>filtered_todos\<close> then is the whole list, as it is for \<^verbatim>\<open>"all"\<close>.
\<close>

theorem set_filter_stores_unrecognized:
  assumes "f \<noteq> str ''all''" and "f \<noteq> str ''active''" and "f \<noteq> str ''completed''"
  shows "todo_handle s (SetFilter f) = Inr (s\<lparr>filter_status := f\<rparr>)
     \<and> filter_status (set_filter s f) = f
     \<and> todos (set_filter s f) = todos s
     \<and> new_todo (set_filter s f) = new_todo s
     \<and> filtered_todos (set_filter s f) = todos s"
  using assms by (simp add: set_filter_def filtered_todos_def)

text \<open>
  The string \<^verbatim>\<open>"bogus"\<close> on a state with a completed and an open item, text in the input
  field and the filter \<^verbatim>\<open>"completed"\<close>: the filter becomes \<^verbatim>\<open>"bogus"\<close> and the view shows
  both items.
\<close>

theorem set_filter_stores_unrecognized_witness:
  "str ''bogus'' \<noteq> str ''all'' \<and> str ''bogus'' \<noteq> str ''active''
   \<and> str ''bogus'' \<noteq> str ''completed''
   \<and> todo_handle \<lparr>todos = [\<lparr>todo_text = str ''a'', todo_completed = True\<rparr>,
                            \<lparr>todo_text = str ''b'', todo_completed = False\<rparr>],
                   new_todo = str ''c'', filter_status = str ''completed''\<rparr>
        (SetFilter (str ''bogus''))
       = Inr \<lparr>todos = [\<lparr>todo_text = str ''a'', todo_completed = True\<rparr>,
                       \<lparr>todo_text = str ''b'', todo_completed = False\<rparr>],
              new_todo = str ''c'', filter_status = str ''bogus''\<rparr>
   \<and> filtered_todos (set_filter \<lparr>todos = [\<lparr>todo_text = str ''a'', todo_completed = True\<rparr>,
                            \<lparr>todo_text = str ''b'', todo_completed = False\<rparr>],
                   new_todo = str ''c'', filter_status = str ''completed''\<rparr> (str ''bogus''))
       = [\<lparr>todo_text = str ''a'', todo_completed = True\<rparr>,
          \<lparr>todo_text = str ''b'', todo_completed = False\<rparr>]"
proof -
  have ne: "str ''bogus'' \<noteq> str ''all''" "str ''bogus'' \<noteq> str ''active''"
    "str ''bogus'' \<noteq> str ''completed''"
    by (simp_all add: str_simps)
  from set_filter_stores_unrecognized [OF ne,
      of "\<lparr>todos = [\<lparr>todo_text = str ''a'', todo_completed = True\<rparr>,
                    \<lparr>todo_text = str ''b'', todo_completed = False\<rparr>],
           new_todo = str ''c'', filter_status = str ''completed''\<rparr>"] ne
  show ?thesis by (simp add: set_filter_def)
qed

section \<open>References that match no task\<close>

text \<open>In the application with keys, the loop of \<^verbatim>\<open>toggle_complete\<close> that finds no match
  leaves the list as it is, and so does the filter of \<^verbatim>\<open>delete_task\<close>.\<close>

lemma toggle_first_no_match:
  "\<not> (\<exists>t \<in> set ts. same_key t k) \<Longrightarrow> toggle_first ts k = ts"
  by (induction ts) auto

lemma toggle_complete_no_match:
  "\<not> (\<exists>t \<in> set (tasks s). same_key t k) \<Longrightarrow> toggle_complete s k = s"
  by (simp add: toggle_complete_def toggle_first_no_match)

lemma delete_task_no_match:
  "\<not> (\<exists>t \<in> set (tasks s). same_key t k) \<Longrightarrow> delete_task s k = s"
proof -
  assume "\<not> (\<exists>t \<in> set (tasks s). same_key t k)"
  then have "filter (\<lambda>t. \<not> same_key t k) (tasks s) = tasks s"
    by (simp add: filter_id_conv)
  then show ?thesis by (simp add: delete_task_def)
qed

text \<open>
  Claim C2 says that toggling or deleting with a reference that matches no task raises
  nothing. In the index-based application, with one item in the list, index 1 matches no
  item, and both \<^verbatim>\<open>toggle_todo(1)\<close> and \<^verbatim>\<open>delete_todo(1)\<close> raise \<^verbatim>\<open>IndexError\<close>.
\<close>

theorem out_of_range_index_counterexample:
  "toggle_todo \<lparr>todos = [\<lparr>todo_text = str ''a'', todo_completed = False\<rparr>],
                 new_todo = [], filter_status = str ''all''\<rparr> 1 = Inl IndexError
   \<and> delete_todo \<lparr>todos = [\<lparr>todo_text = str ''a'', todo_completed = False\<rparr>],
                 new_todo = [], filter_status = str ''all''\<rparr> 1 = Inl IndexError"
  by (simp add: toggle_todo_def delete_todo_def py_pop_index_def py_index_def fits_ssize_def)

text \<open>
  Claim C2, as the code has it. In the application with keys, \<^verbatim>\<open>toggle_complete\<close> and
  \<^verbatim>\<open>delete_task\<close> with a key (description, created_at) that no task has return normally
  and leave the whole state unchanged. In the index-based application, an index \<open>i\<close> with
  \<open>i \<ge> len(todos)\<close> or \<open>i < -len(todos)\<close> makes both handlers raise: \<^verbatim>\<open>toggle_todo\<close> raises
  \<^verbatim>\<open>IndexError\<close>; \<^verbatim>\<open>delete_todo\<close> raises \<^verbatim>\<open>IndexError\<close> when \<open>i\<close> fits the machine's
  index type (\<^verbatim>\<open>-2**63 <= i < 2**63\<close>) and \<^verbatim>\<open>OverflowError\<close> when it does not. Nothing
  has been written when they raise, so the state of the session is the one before the
  call.
\<close>

theorem missing_reference:
  "(\<not> (\<exists>t \<in> set (tasks s). same_key t k) \<longrightarrow>
      toggle_complete s k = s \<and> delete_task s k = s)
   \<and> (int (length (todos u)) \<le> i \<or> i < - int (length (todos u)) \<longrightarrow>
      toggle_todo u i = Inl IndexError
      \<and> delete_todo u i = Inl (if fits_ssize i then IndexError else OverflowError)
      \<and> todo_run u [ToggleTodo i] = u \<and> todo_run u [DeleteTodo i] = u)"
proof (intro conjI impI)
  assume "\<not> (\<exists>t \<in> set (tasks s). same_key t k)"
  then show "toggle_complete s k = s" and "delete_task s k = s"
    by (rule toggle_complete_no_match, rule delete_task_no_match)
next
  assume out: "int (length (todos u)) \<le> i \<or> i < - int (length (todos u))"
  then have idx: "py_index (todos u) i = Inl IndexError"
    by (rule py_index_out_of_range)
  from out have pop:
    "py_pop_index (todos u) i = Inl (if fits_ssize i then IndexError else OverflowError)"
    by (rule py_pop_index_out_of_range)
  from idx show toggle: "toggle_todo u i = Inl IndexError"
    by (simp add: toggle_todo_def)
  from pop show delete:
    "delete_todo u i = Inl (if fits_ssize i then IndexError else OverflowError)"
    by (simp add: delete_todo_def)
  from toggle show "todo_run u [ToggleTodo i] = u" by simp
  from delete show "todo_run u [DeleteTodo i] = u" by simp
qed

text \<open>
  A key with another timestamp on a one-task list; the indices \<open>-2\<close> and \<^verbatim>\<open>2**63\<close> on a
  one-item list.
\<close>

theorem missing_reference_witness:
  "toggle_complete
     \<lparr>tasks = [\<lparr>description = str ''a'', completed = False, created_at = str ''2024-01-01 10:00''\<rparr>],
      new_task_description = []\<rparr>
     \<lparr>description = str ''a'', completed = False, created_at = str ''2024-01-01 10:01''\<rparr>
   = \<lparr>tasks = [\<lparr>description = str ''a'', completed = False, created_at = str ''2024-01-01 10:00''\<rparr>],
      new_task_description = []\<rparr>
   \<and> delete_task
     \<lparr>tasks = [\<lparr>description = str ''a'', completed = False, created_at = str ''2024-01-01 10:00''\<rparr>],
      new_task_description = []\<rparr>
     \<lparr>description = str ''a'', completed = False, created_at = str ''2024-01-01 10:01''\<rparr>
   = \<lparr>tasks = [\<lparr>description = str ''a'', completed = False, created_at = str ''2024-01-01 10:00''\<rparr>],
      new_task_description = []\<rparr>
   \<and> toggle_todo \<lparr>todos = [\<lparr>todo_text = str ''a'', todo_completed = False\<rparr>],
                 new_todo = [], filter_status = str ''all''\<rparr> (- 2) = Inl IndexError
   \<and> delete_todo \<lparr>todos = [\<lparr>todo_text = str ''a'', todo_completed = False\<rparr>],
                 new_todo = [], filter_status = str ''all''\<rparr> (- 2) = Inl IndexError
   \<and> toggle_todo \<lparr>todos = [\<lparr>todo_text = str ''a'', todo_completed = False\<rparr>],
                 new_todo = [], filter_status = str ''all''\<rparr> 9223372036854775808
       = Inl IndexError
   \<and> delete_todo \<lparr>todos = [\<lparr>todo_text = str ''a'', todo_completed = False\<rparr>],
                 new_todo = [], filter_status = str ''all''\<rparr> 9223372036854775808
       = Inl OverflowError
   \<and> todo_run \<lparr>todos = [\<lparr>todo_text = str ''a'', todo_completed = False\<rparr>],
                 new_todo = [], filter_status = str ''all''\<rparr> [DeleteTodo 9223372036854775808]
       = \<lparr>todos = [\<lparr>todo_text = str ''a'', todo_completed = False\<rparr>],
                 new_todo = [], filter_status = str ''all''\<rparr>"
  using missing_reference
    [of "\<lparr>tasks = [\<lparr>description = str ''a'', completed = False, created_at = str ''2024-01-01 10:00''\<rparr>],
      new_task_description = []\<rparr>"
      "\<lparr>description = str ''a'', completed = False, created_at = str ''2024-01-01 10:01''\<rparr>"
      "\<lparr>todos = [\<lparr>todo_text = str ''a'', todo_completed = False\<rparr>],
                 new_todo = [], filter_status = str ''all''\<rparr>" "- 2"]
    missing_reference
    [of "\<lparr>tasks = [\<lparr>description = str ''a'', completed = False, created_at = str ''2024-01-01 10:00''\<rparr>],
      new_task_description = []\<rparr>"
      "\<lparr>description = str ''a'', completed = False, created_at = str ''2024-01-01 10:01''\<rparr>"
      "\<lparr>todos = [\<lparr>todo_text = str ''a'', todo_completed = False\<rparr>],
                 new_todo = [], filter_status = str ''all''\<rparr>" "9223372036854775808"]
  by (simp add: same_key_def str_simps fits_ssize_def)

section \<open>The application with keys: deleting\<close>

text \<open>
  Claim C8. \<^verbatim>\<open>delete_task\<close> with a key removes every task whose description and
  created_at both equal the key's, not only the first: the new list is the old one
  filtered by "does not have the key", no task with the key is left, the number of tasks
  drops by the number of tasks that had the key, and the other tasks keep their order (the
  new list is a subsequence of the old). The input field is unchanged.
\<close>

theorem delete_task_removes_every_match:
  "tasks (delete_task s k) = filter (\<lambda>t. \<not> same_key t k) (tasks s)
   \<and> filter (\<lambda>t. same_key t k) (tasks (delete_task s k)) = []
   \<and> subseq (tasks (delete_task s k)) (tasks s)
   \<and> length (tasks (delete_task s k)) + length (filter (\<lambda>t. same_key t k) (tasks s))
       = length (tasks s)
   \<and> new_task_description (delete_task s k) = new_task_description s"
proof -
  have "length (filter (\<lambda>t. \<not> same_key t k) (tasks s))
        + length (filter (\<lambda>t. same_key t k) (tasks s)) = length (tasks s)"
    using sum_length_filter_compl [of "\<lambda>t. same_key t k" "tasks s"] by simp
  then show ?thesis
    by (simp add: delete_task_def)
qed

text \<open>Two tasks with the same description and minute are both removed.\<close>

theorem delete_task_removes_every_match_witness:
  "tasks (delete_task
     \<lparr>tasks = [\<lparr>description = str ''x'', completed = False, created_at = str ''2024-01-01 10:00''\<rparr>,
               \<lparr>description = str ''y'', completed = False, created_at = str ''2024-01-01 10:00''\<rparr>,
               \<lparr>description = str ''x'', completed = True, created_at = str ''2024-01-01 10:00''\<rparr>],
      new_task_description = []\<rparr>
     \<lparr>description = str ''x'', completed = False, created_at = str ''2024-01-01 10:00''\<rparr>)
   = [\<lparr>description = str ''y'', completed = False, created_at = str ''2024-01-01 10:00''\<rparr>]"
  using delete_task_removes_every_match
    [of "\<lparr>tasks = [\<lparr>description = str ''x'', completed = False, created_at = str ''2024-01-01 10:00''\<rparr>,
               \<lparr>description = str ''y'', completed = False, created_at = str ''2024-01-01 10:00''\<rparr>,
               \<lparr>description = str ''x'', completed = True, created_at = str ''2024-01-01 10:00''\<rparr>],
      new_task_description = []\<rparr>"
     "\<lparr>description = str ''x'', completed = False, created_at = str ''2024-01-01 10:00''\<rparr>"]
  by (simp add: same_key_def str_simps)

section \<open>No blank description is ever stored\<close>

text \<open>A property of the values of a field carries over between lists with the same
  values of that field.\<close>

lemma all_by_map:
  assumes eq: "map f xs = map f ys" and all: "\<forall>t \<in> set ys. P (f t)"
  shows "\<forall>t \<in> set xs. P (f t)"
proof -
  from all have "\<forall>d \<in> set (map f ys). P d" by simp
  then have "\<forall>d \<in> set (map f xs). P d" by (simp only: eq)
  then show ?thesis by simp
qed

lemma py_index_Inr_less: "py_index xs i = Inr j \<Longrightarrow> j < length xs"
  by (auto simp add: py_index_def Let_def split: if_splits)

text \<open>Each handler of the index-based application keeps the texts non-blank.\<close>

lemma add_todo_keeps_nonblank:
  assumes "\<forall>t \<in> set (todos s). \<not> whitespace_only (todo_text t)"
  shows "\<forall>t \<in> set (todos (add_todo s)). \<not> whitespace_only (todo_text t)"
  using assms by (auto simp add: add_todo_def not_blank_input)

lemma toggle_todo_keeps_nonblank:
  assumes "\<forall>t \<in> set (todos s). \<not> whitespace_only (todo_text t)"
    and "toggle_todo s i = Inr s'"
  shows "\<forall>t \<in> set (todos s'). \<not> whitespace_only (todo_text t)"
proof -
  from assms(2) obtain j where j: "py_index (todos s) i = Inr j"
    and s': "s' = s\<lparr>todos := (todos s)
                 [j := (todos s ! j)\<lparr>todo_completed := \<not> todo_completed (todos s ! j)\<rparr>]\<rparr>"
    by (auto simp add: toggle_todo_def split: sum.splits)
  from j have less: "j < length (todos s)" by (rule py_index_Inr_less)
  have "map todo_text (todos s') = map todo_text (todos s)"
    using less s' by (simp add: map_update list_update_same_conv)
  then show ?thesis using assms(1) by (rule all_by_map)
qed

lemma delete_todo_keeps_nonblank:
  assumes "\<forall>t \<in> set (todos s). \<not> whitespace_only (todo_text t)"
    and "delete_todo s i = Inr s'"
  shows "\<forall>t \<in> set (todos s'). \<not> whitespace_only (todo_text t)"
proof -
  from assms(2) obtain j where
    s': "s' = s\<lparr>todos := take j (todos s) @ drop (Suc j) (todos s)\<rparr>"
    by (auto simp add: delete_todo_def split: sum.splits)
  have "set (todos s') \<subseteq> set (todos s)"
    using s' set_take_subset [of j "todos s"] set_drop_subset [of "Suc j" "todos s"] by simp
  with assms(1) show ?thesis by blast
qed

lemma todo_handle_keeps_nonblank:
  assumes "\<forall>t \<in> set (todos s). \<not> whitespace_only (todo_text t)"
    and "todo_handle s ev = Inr s'"
  shows "\<forall>t \<in> set (todos s'). \<not> whitespace_only (todo_text t)"
proof (cases ev)
  case (SetNewTodo v)
  with assms show ?thesis by (auto simp add: set_new_todo_def)
next
  case AddTodo
  with assms add_todo_keeps_nonblank [of s] show ?thesis by auto
next
  case (ToggleTodo i)
  with assms toggle_todo_keeps_nonblank [of s i s'] show ?thesis by simp
next
  case (DeleteTodo i)
  with assms delete_todo_keeps_nonblank [of s i s'] show ?thesis by simp
next
  case ClearCompleted
  with assms show ?thesis by (auto simp add: clear_completed_def)
next
  case (SetFilter f)
  with assms show ?thesis by (auto simp add: set_filter_def)
qed

lemma todo_run_keeps_nonblank:
  "\<forall>t \<in> set (todos s). \<not> whitespace_only (todo_text t) \<Longrightarrow>
   \<forall>t \<in> set (todos (todo_run s evs)). \<not> whitespace_only (todo_text t)"
proof (induction evs arbitrary: s)
  case Nil
  then show ?case by simp
next
  case (Cons ev evs)
  show ?case
  proof (cases "todo_handle s ev")
    case (Inl e)
    with Cons show ?thesis by simp
  next
    case (Inr s')
    with Cons.prems have "\<forall>t \<in> set (todos s'). \<not> whitespace_only (todo_text t)"
      by (rule todo_handle_keeps_nonblank)
    then have "\<forall>t \<in> set (todos (todo_run s' evs)). \<not> whitespace_only (todo_text t)"
      by (rule Cons.IH)
    with Inr show ?thesis by simp
  qed
qed

text \<open>The same for the application with keys; its toggle changes no description.\<close>

lemma toggle_first_descriptions:
  "map description (toggle_first ts k) = map description ts"
  by (induction ts) simp_all

lemma toggle_first_length: "length (toggle_first ts k) = length ts"
  by (induction ts) simp_all

lemma task_handle_keeps_nonblank:
  assumes "\<forall>t \<in> set (tasks s). \<not> whitespace_only (description t)"
  shows "\<forall>t \<in> set (tasks (task_handle s ev)). \<not> whitespace_only (description t)"
proof (cases ev)
  case (SetNewTaskDescription v)
  with assms show ?thesis by (simp add: set_new_task_description_def)
next
  case (AddTask now)
  with assms show ?thesis by (auto simp add: add_task_def strip_not_blank)
next
  case (ToggleComplete k)
  have "map description (toggle_first (tasks s) k) = map description (tasks s)"
    by (rule toggle_first_descriptions)
  then have "\<forall>t \<in> set (toggle_first (tasks s) k). \<not> whitespace_only (description t)"
    using assms by (rule all_by_map)
  with ToggleComplete show ?thesis by (simp add: toggle_complete_def)
next
  case (DeleteTask k)
  with assms show ?thesis by (simp add: delete_task_def)
qed

lemma task_run_keeps_nonblank:
  "\<forall>t \<in> set (tasks s). \<not> whitespace_only (description t) \<Longrightarrow>
   \<forall>t \<in> set (tasks (task_run s evs)). \<not> whitespace_only (description t)"
proof (induction evs arbitrary: s)
  case Nil
  then show ?case by simp
next
  case (Cons ev evs)
  from Cons.prems have "\<forall>t \<in> set (tasks (task_handle s ev)). \<not> whitespace_only (description t)"
    by (rule task_handle_keeps_nonblank)
  then have "\<forall>t \<in> set (tasks (task_run (task_handle s ev) evs)).
      \<not> whitespace_only (description t)"
    by (rule Cons.IH)
  then show ?case by simp
qed

text \<open>
  Claim C7. For every sequence of events applied to the initial, empty state (setting the
  input field, adding, toggling, deleting, clearing the completed items, setting the
  filter), in either application, no task of the list has a description that is empty or
  consists of whitespace only. A sequence such as \<^verbatim>\<open>addTask(text)\<close> is the event that sets
  the input field followed by the add event.
\<close>

theorem descriptions_never_blank:
  "(\<forall>t \<in> set (todos (todo_run todo_init evs)). \<not> whitespace_only (todo_text t))
   \<and> (\<forall>t \<in> set (tasks (task_run task_init evs')). \<not> whitespace_only (description t))"
proof
  have "\<forall>t \<in> set (todos todo_init). \<not> whitespace_only (todo_text t)"
    by (simp add: todo_init_def)
  then show "\<forall>t \<in> set (todos (todo_run todo_init evs)). \<not> whitespace_only (todo_text t)"
    by (rule todo_run_keeps_nonblank)
next
  have "\<forall>t \<in> set (tasks task_init). \<not> whitespace_only (description t)"
    by (simp add: task_init_def)
  then show "\<forall>t \<in> set (tasks (task_run task_init evs')). \<not> whitespace_only (description t)"
    by (rule task_run_keeps_nonblank)
qed

text \<open>Two runs in which a blank input is refused and a non-blank one is stored.\<close>

lemma todo_run_example:
  "todo_run todo_init
      [SetNewTodo (str '' a ''), AddTodo, SetNewTodo (str ''  ''), AddTodo, ToggleTodo 0,
       SetNewTodo [], AddTodo, DeleteTodo 7, SetFilter (str ''active'')]
   = \<lparr>todos = [\<lparr>todo_text = str '' a '', todo_completed = True\<rparr>],
      new_todo = [], filter_status = str ''active''\<rparr>"
  by (simp add: todo_init_def set_new_todo_def add_todo_def toggle_todo_def delete_todo_def
      set_filter_def py_pop_index_def py_index_def fits_ssize_def strip_def lstrip_def rstrip_def isspace_def str_simps)

lemma task_run_example:
  "task_run task_init
      [SetNewTaskDescription (str '' a ''), AddTask (str ''2024-01-01 10:00''),
       SetNewTaskDescription (str ''  ''), AddTask (str ''2024-01-01 10:01''),
       ToggleComplete \<lparr>description = str ''a'', completed = False,
                        created_at = str ''2024-01-01 10:00''\<rparr>]
   = \<lparr>tasks = [\<lparr>description = str ''a'', completed = True,
                  created_at = str ''2024-01-01 10:00''\<rparr>],
      new_task_description = str ''  ''\<rparr>"
  by (simp add: task_init_def set_new_task_description_def add_task_def toggle_complete_def
      same_key_def strip_def lstrip_def rstrip_def isspace_def str_simps)

theorem descriptions_never_blank_witness:
  "todos (todo_run todo_init
      [SetNewTodo (str '' a ''), AddTodo, SetNewTodo (str ''  ''), AddTodo, ToggleTodo 0,
       SetNewTodo [], AddTodo, DeleteTodo 7, SetFilter (str ''active'')])
     = [\<lparr>todo_text = str '' a '', todo_completed = True\<rparr>]
   \<and> \<not> whitespace_only (str '' a '')
   \<and> tasks (task_run task_init
      [SetNewTaskDescription (str '' a ''), AddTask (str ''2024-01-01 10:00''),
       SetNewTaskDescription (str ''  ''), AddTask (str ''2024-01-01 10:01''),
       ToggleComplete \<lparr>description = str ''a'', completed = False,
                        created_at = str ''2024-01-01 10:00''\<rparr>])
     = [\<lparr>description = str ''a'', completed = True, created_at = str ''2024-01-01 10:00''\<rparr>]
   \<and> \<not> whitespace_only (str ''a'')"
  using descriptions_never_blank
    [of "[SetNewTodo (str '' a ''), AddTodo, SetNewTodo (str ''  ''), AddTodo, ToggleTodo 0,
       SetNewTodo [], AddTodo, DeleteTodo 7, SetFilter (str ''active'')]"
     "[SetNewTaskDescription (str '' a ''), AddTask (str ''2024-01-01 10:00''),
       SetNewTaskDescription (str ''  ''), AddTask (str ''2024-01-01 10:01''),
       ToggleComplete \<lparr>description = str ''a'', completed = False,
                        created_at = str ''2024-01-01 10:00''\<rparr>]"]
  by (simp only: todo_run_example task_run_example) simp

section \<open>Adding a task\<close>

text \<open>
  Claim C1 says that the description of the new task equals the trimmed input. In the
  index-based application the input \<^verbatim>\<open>" a "\<close>, whose trim \<^verbatim>\<open>"a"\<close> is not empty, is stored as
  \<^verbatim>\<open>" a "\<close>.
\<close>

theorem add_todo_untrimmed_counterexample:
  "strip (str '' a '') = str ''a''
   \<and> str ''a'' \<noteq> []
   \<and> todos (add_todo (set_new_todo todo_init (str '' a '')))
       = [\<lparr>todo_text = str '' a '', todo_completed = False\<rparr>]
   \<and> str '' a '' \<noteq> strip (str '' a '')"
  by (simp add: todo_init_def set_new_todo_def add_todo_def strip_def lstrip_def rstrip_def
      isspace_def str_simps)

text \<open>
  Claim C1, as the code has it. For every input \<open>x\<close> whose trim is not empty, adding with
  \<open>x\<close> in the input field appends exactly one task at the end, not completed; the list is
  one longer, the tasks that were there are unchanged and in order, and the input field is
  cleared. In the application with keys the description of the new task is the trimmed
  input. In the index-based application it is the input as typed, whose trim is the
  trimmed input.
\<close>

theorem add_appends_one_task:
  assumes "strip x \<noteq> []"
  shows "add_todo (set_new_todo s x)
       = s\<lparr>todos := todos s @ [\<lparr>todo_text = x, todo_completed = False\<rparr>], new_todo := []\<rparr>
     \<and> length (todos (add_todo (set_new_todo s x))) = length (todos s) + 1
     \<and> take (length (todos s)) (todos (add_todo (set_new_todo s x))) = todos s
     \<and> strip (todo_text (last (todos (add_todo (set_new_todo s x))))) = strip x
     \<and> add_task now (set_new_task_description u x)
       = u\<lparr>tasks := tasks u @ [\<lparr>description = strip x, completed = False, created_at = now\<rparr>],
           new_task_description := []\<rparr>
     \<and> total_tasks_count (add_task now (set_new_task_description u x))
       = total_tasks_count u + 1
     \<and> take (length (tasks u)) (tasks (add_task now (set_new_task_description u x))) = tasks u"
  using assms
  by (simp add: add_todo_def set_new_todo_def add_task_def set_new_task_description_def
      total_tasks_count_def)

text \<open>Adding \<^verbatim>\<open>" b "\<close> after one task, in both applications.\<close>

theorem add_appends_one_task_witness:
  "strip (str '' b '') \<noteq> []
   \<and> add_todo (set_new_todo
        \<lparr>todos = [\<lparr>todo_text = str ''a'', todo_completed = True\<rparr>], new_todo = [],
         filter_status = str ''all''\<rparr> (str '' b ''))
       = \<lparr>todos = [\<lparr>todo_text = str ''a'', todo_completed = True\<rparr>,
                    \<lparr>todo_text = str '' b '', todo_completed = False\<rparr>], new_todo = [],
          filter_status = str ''all''\<rparr>
   \<and> add_task (str ''2024-01-01 10:00'') (set_new_task_description
        \<lparr>tasks = [\<lparr>description = str ''a'', completed = True,
                     created_at = str ''2024-01-01 09:00''\<rparr>],
         new_task_description = []\<rparr> (str '' b ''))
       = \<lparr>tasks = [\<lparr>description = str ''a'', completed = True,
                     created_at = str ''2024-01-01 09:00''\<rparr>,
                    \<lparr>description = str ''b'', completed = False,
                     created_at = str ''2024-01-01 10:00''\<rparr>],
          new_task_description = []\<rparr>"
proof -
  have strip_b: "strip (str '' b '') = str ''b''"
    by (simp add: strip_def lstrip_def rstrip_def isspace_def str_simps)
  then have ne: "strip (str '' b '') \<noteq> []"
    by (simp add: str_simps)
  from add_appends_one_task [OF ne,
      of "\<lparr>todos = [\<lparr>todo_text = str ''a'', todo_completed = True\<rparr>], new_todo = [],
         filter_status = str ''all''\<rparr>"
         "str ''2024-01-01 10:00''"
         "\<lparr>tasks = [\<lparr>description = str ''a'', completed = True,
                     created_at = str ''2024-01-01 09:00''\<rparr>],
         new_task_description = []\<rparr>"]
    ne strip_b
  show ?thesis by simp
qed

end
